theory Spec2Isabelle
  imports Main
begin

section \<open>Data model (game/game.go)\<close>

text \<open>
  \<^verbatim>\<open>type Piece int\<close> with the constants \<^verbatim>\<open>blank = 0\<close>, \<^verbatim>\<open>xPiece = -1\<close>,
  \<^verbatim>\<open>oPiece = 1\<close> and the two thresholds \<^verbatim>\<open>xWins = -3\<close>, \<^verbatim>\<open>oWins = 3\<close>.
  A piece is kept as an integer, as in the source, because the status evaluation adds
  pieces up. The engine only ever stores \<open>-1\<close>, \<open>0\<close> and \<open>1\<close> in a cell, so every sum
  it forms lies between \<open>-9\<close> and \<open>9\<close> and the machine width of Go's \<^verbatim>\<open>int\<close> plays no
  role; that restriction on cells is the predicate \<open>valid_board\<close> below.
\<close>

type_synonym Piece = int

definition blank :: Piece where "blank = 0"
definition xPiece :: Piece where "xPiece = - 1"
definition oPiece :: Piece where "oPiece = 1"
definition xWins :: int where "xWins = - 3"
definition oWins :: int where "oWins = 3"

text \<open>
  \<^verbatim>\<open>type Board [3][3]Piece\<close>: a fixed-size array of three rows of three cells. The
  array type is a datatype with exactly three components. Reading or writing with an
  index outside \<open>0..2\<close> is a run-time panic in Go; \<open>idx\<close> and \<open>upd\<close> return \<open>None\<close>
  there.
\<close>

datatype 'a arr3 = Arr3 'a 'a 'a

type_synonym Board = "Piece arr3 arr3"

fun elems :: "'a arr3 \<Rightarrow> 'a list" where
  "elems (Arr3 a b c) = [a, b, c]"

fun idx :: "'a arr3 \<Rightarrow> int \<Rightarrow> 'a option" where
  "idx (Arr3 a b c) i =
     (if i = 0 then Some a else if i = 1 then Some b else if i = 2 then Some c else None)"

fun upd :: "'a arr3 \<Rightarrow> int \<Rightarrow> 'a \<Rightarrow> 'a arr3 option" where
  "upd (Arr3 a b c) i v =
     (if i = 0 then Some (Arr3 v b c)
      else if i = 1 then Some (Arr3 a v c)
      else if i = 2 then Some (Arr3 a b v)
      else None)"

text \<open>\<^verbatim>\<open>b[y][x]\<close> as a read and as a write.\<close>

definition board_get :: "Board \<Rightarrow> int \<Rightarrow> int \<Rightarrow> Piece option" where
  "board_get b y x = (case idx b y of None \<Rightarrow> None | Some row \<Rightarrow> idx row x)"

definition board_set :: "Board \<Rightarrow> int \<Rightarrow> int \<Rightarrow> Piece \<Rightarrow> Board option" where
  "board_set b y x v =
     (case idx b y of
        None \<Rightarrow> None
      | Some row \<Rightarrow> (case upd row x v of None \<Rightarrow> None | Some row' \<Rightarrow> upd b y row'))"

text \<open>\<^verbatim>\<open>b[y][x]\<close> at constant indices, which the compiler has checked.\<close>

definition cell :: "Board \<Rightarrow> nat \<Rightarrow> nat \<Rightarrow> Piece" where
  "cell b y x = elems (elems b ! y) ! x"

definition empty_board :: Board where
  "empty_board =
     Arr3 (Arr3 blank blank blank) (Arr3 blank blank blank) (Arr3 blank blank blank)"

definition valid_piece :: "Piece \<Rightarrow> bool" where
  "valid_piece p = (p = blank \<or> p = xPiece \<or> p = oPiece)"

definition valid_board :: "Board \<Rightarrow> bool" where
  "valid_board b = list_all (\<lambda>row. list_all valid_piece (elems row)) (elems b)"

text \<open>\<^verbatim>\<open>type Player struct { ID string; Name *string }\<close>\<close>

record Player =
  ID :: string
  Name :: "string option"

text \<open>
  \<^verbatim>\<open>type Status string\<close> with its six constants; the engine assigns no other value.
\<close>

datatype Status = InsufficientPlayers | NoBoard | XWins | OWins | Cats | InProgress

text \<open>\<^verbatim>\<open>type Move struct { YAxis int; XAxis int; PlayerID string }\<close>\<close>

record Move =
  YAxis :: int
  XAxis :: int
  PlayerID :: string

text \<open>
  \<^verbatim>\<open>type Game struct\<close>. The fields \<^verbatim>\<open>Board\<close>, \<^verbatim>\<open>X\<close> and \<^verbatim>\<open>O\<close> are pointers and may
  be nil: they are options. The field \<^verbatim>\<open>O\<close> is written \<open>O'\<close> here, since \<open>O\<close> is the
  composition of relations in HOL. \<^verbatim>\<open>Move\<close> is the string \<^verbatim>\<open>"X"\<close>, \<^verbatim>\<open>"O"\<close> or
  \<^verbatim>\<open>""\<close>. The logger, the notification channel and the watchdog's timer and channels
  hold no game state and are left out.

  Seats hold pointers. \<^verbatim>\<open>advanceQueue\<close> returns \<^verbatim>\<open>&g.Queue[0]\<close> and then moves the
  slice to \<^verbatim>\<open>g.Queue[1:]\<close>, so a seat points at a cell of the underlying array that lies
  before the start of the slice. Every later write to the queue (\<^verbatim>\<open>append\<close>, the
  assignment in \<^verbatim>\<open>UpdatePlayer\<close>, the splice in \<^verbatim>\<open>RemovePlayer\<close>) lands at or after the
  start of the slice or in a newly allocated array, never in that cell. The players
  \<^verbatim>\<open>AddPlayer\<close> and \<^verbatim>\<open>UpdatePlayer\<close> seat are the addresses of their own parameters. No
  seat therefore aliases a cell that is written afterwards, and seats are modelled by
  the player values they point to.
\<close>

record Game =
  Board :: "Board option"
  Queue :: "Player list"
  X :: "Player option"
  O' :: "Player option"
  Move :: string
  Status :: Status

text \<open>The error values of the package, and the two run-time panics of Go that occur.\<close>

datatype error =
  ErrPlayerNotFound | ErrGameInProgress | ErrInvalidMove | ErrAlreadyQueued | ErrAlreadyPlaying

datatype panic = NilDereference | IndexOutOfRange

text \<open>
  What a call that may panic gives: it returns (with Go's \<^verbatim>\<open>error\<close>, nil being
  \<open>None\<close>) or it panics; both carry the game as the call left it.
\<close>

datatype result = Returned "error option" Game | Panicked panic Game

fun state_of :: "result \<Rightarrow> Game" where
  "state_of (Returned e g) = g"
| "state_of (Panicked p g) = g"

section \<open>Construction and reset\<close>

text \<open>\<^verbatim>\<open>func New\<close>: an empty board, an empty queue, no seats, the zero value of \<^verbatim>\<open>Move\<close>.\<close>

definition New :: Game where
  "New = \<lparr> Board = Some empty_board, Queue = [], X = None, O' = None, Move = [],
           Status = InsufficientPlayers \<rparr>"

text \<open>\<^verbatim>\<open>func (g *Game) clearBoard()\<close>\<close>

definition clearBoard :: "Game \<Rightarrow> Game" where
  "clearBoard g = g\<lparr> Board := Some empty_board \<rparr>"

text \<open>
  \<^verbatim>\<open>func (g *Game) Clear() { g = New(g.log, g.timeout, g.UpdatedCh) }\<close>

  The receiver \<^verbatim>\<open>g\<close> is a pointer, passed by value. The body allocates a new game and
  assigns its address to the local variable \<^verbatim>\<open>g\<close>; it never writes through the pointer
  it was given. This needs the store to be said: a heap of games, an address being an
  index into it. \<open>Clear h g\<close> gives the heap after the call on the game at address \<open>g\<close>.
\<close>

type_synonym heap = "Game list"

definition alloc :: "heap \<Rightarrow> Game \<Rightarrow> nat \<times> heap" where
  "alloc h v = (length h, h @ [v])"

definition Clear :: "heap \<Rightarrow> nat \<Rightarrow> heap" where
  "Clear h g = (let (g, h') = alloc h New in h')"

section \<open>Status evaluation\<close>

text \<open>\<^verbatim>\<open>func checkScore(s int) *string\<close>\<close>

definition checkScore :: "int \<Rightarrow> Status option" where
  "checkScore s = (if s = oWins then Some OWins else if s = xWins then Some XWins else None)"

text \<open>
  The inner loop of \<^verbatim>\<open>status\<close>, \<^verbatim>\<open>for i, col := range row\<close>, on the state
  \<open>(movesLeft, rowSum, colSums)\<close>; \<open>i\<close> is the index of the next cell.
\<close>

fun row_loop :: "Piece list \<Rightarrow> nat \<Rightarrow> int \<times> int \<times> int list \<Rightarrow> int \<times> int \<times> int list" where
  "row_loop [] i st = st"
| "row_loop (col # cols) i (movesLeft, rowSum, colSums) =
     row_loop cols (Suc i)
       (if col \<noteq> 0 then movesLeft - 1 else movesLeft,
        rowSum + col,
        colSums[i := colSums ! i + col])"

text \<open>
  The outer loop, \<^verbatim>\<open>for _, row := range g.Board\<close>. After each row the source adds the
  row's sum to \<^verbatim>\<open>boardTotal\<close> and passes \<^verbatim>\<open>boardTotal\<close> to \<^verbatim>\<open>checkScore\<close>. \<open>Inl\<close> is the
  early return.
\<close>

fun rows_loop ::
  "Piece arr3 list \<Rightarrow> int \<Rightarrow> int \<Rightarrow> int list \<Rightarrow> Status + (int \<times> int list)" where
  "rows_loop [] boardTotal movesLeft colSums = Inr (movesLeft, colSums)"
| "rows_loop (row # rows) boardTotal movesLeft colSums =
     (case row_loop (elems row) 0 (movesLeft, 0, colSums) of
        (movesLeft', rowSum, colSums') \<Rightarrow>
          (case checkScore (boardTotal + rowSum) of
             Some s \<Rightarrow> Inl s
           | None \<Rightarrow> rows_loop rows (boardTotal + rowSum) movesLeft' colSums'))"

text \<open>\<^verbatim>\<open>for _, col := range colSums\<close>\<close>

fun cols_loop :: "int list \<Rightarrow> Status option" where
  "cols_loop [] = None"
| "cols_loop (col # cols) =
     (case checkScore col of Some s \<Rightarrow> Some s | None \<Rightarrow> cols_loop cols)"

text \<open>\<^verbatim>\<open>func (g *Game) status() Status\<close>\<close>

definition status :: "Game \<Rightarrow> Status" where
  "status g =
     (if X g = None \<or> O' g = None then InsufficientPlayers
      else case Board g of
        None \<Rightarrow> NoBoard
      | Some b \<Rightarrow>
          (case rows_loop (elems b) 0 9 [0, 0, 0] of
             Inl s \<Rightarrow> s
           | Inr (movesLeft, colSums) \<Rightarrow>
               (case cols_loop colSums of
                  Some s \<Rightarrow> s
                | None \<Rightarrow>
                    (case checkScore (cell b 0 0 + cell b 1 1 + cell b 2 2) of
                       Some s \<Rightarrow> s
                     | None \<Rightarrow>
                         (case checkScore (cell b 2 0 + cell b 1 1 + cell b 0 2) of
                            Some s \<Rightarrow> s
                          | None \<Rightarrow> if movesLeft = 0 then Cats else InProgress)))))"

text \<open>\<^verbatim>\<open>func (g *Game) updateStatus()\<close>\<close>

definition updateStatus :: "Game \<Rightarrow> Game" where
  "updateStatus g = g\<lparr> Status := status g \<rparr>"

section \<open>Queue rotation and round advancement\<close>

text \<open>A seat's occupant as the list of players it holds: none or one.\<close>

fun seat :: "Player option \<Rightarrow> Player list" where
  "seat None = []"
| "seat (Some p) = [p]"

text \<open>
  \<^verbatim>\<open>func (g *Game) advanceQueue(loser *Player) (next *Player)\<close>: the returned pointer
  and the game with its queue as the call leaves it.
\<close>

definition advanceQueue :: "Game \<Rightarrow> Player option \<Rightarrow> Player option \<times> Game" where
  "advanceQueue g loser =
     (let g1 = (case loser of None \<Rightarrow> g | Some l \<Rightarrow> g\<lparr> Queue := Queue g @ [l] \<rparr>)
      in if length (Queue g1) > 0
         then (Some (hd (Queue g1)), g1\<lparr> Queue := tl (Queue g1) \<rparr>)
         else (None, g1))"

text \<open>The two assignments \<^verbatim>\<open>g.O = g.advanceQueue(g.O)\<close> and \<^verbatim>\<open>g.X = g.advanceQueue(g.X)\<close>.\<close>

definition advance_O :: "Game \<Rightarrow> Player option \<Rightarrow> Game" where
  "advance_O g loser = (case advanceQueue g loser of (next, g') \<Rightarrow> g'\<lparr> O' := next \<rparr>)"

definition advance_X :: "Game \<Rightarrow> Player option \<Rightarrow> Game" where
  "advance_X g loser = (case advanceQueue g loser of (next, g') \<Rightarrow> g'\<lparr> X := next \<rparr>)"

text \<open>
  \<^verbatim>\<open>func (g *Game) NextGame() error\<close>. The argument \<open>coin\<close> is the outcome of
  \<^verbatim>\<open>rand.Float32() < 0.5\<close>, read in the \<^verbatim>\<open>Cats\<close> case only. In Go an empty
  \<^verbatim>\<open>case InsufficientPlayers:\<close> does not fall through to \<^verbatim>\<open>default\<close>: it leaves the
  switch, and the code after the switch runs. The code after the switch stops and
  starts the watchdog (no game state) and recomputes the status.
\<close>

definition NextGame :: "bool \<Rightarrow> Game \<Rightarrow> error option \<times> Game" where
  "NextGame coin g =
     (case Status g of
        XWins \<Rightarrow>
          (let g1 = clearBoard (g\<lparr> Move := ''O'' \<rparr>) in
           (None, updateStatus (advance_O g1 (O' g1))))
      | OWins \<Rightarrow>
          (let g1 = clearBoard (g\<lparr> Move := ''X'' \<rparr>) in
           (None, updateStatus (advance_X g1 (X g1))))
      | Cats \<Rightarrow>
          (let g1 = (if coin
                     then (let g0 = g\<lparr> Move := ''O'' \<rparr> in advance_O g0 (O' g0))
                     else (let g0 = g\<lparr> Move := ''X'' \<rparr> in advance_X g0 (X g0)))
           in (None, updateStatus (clearBoard g1)))
      | InProgress \<Rightarrow>
          (let g1 = (if X g = None then advance_X g None else g);
               g2 = (if O' g1 = None then advance_O g1 None else g1)
           in (None, updateStatus g2))
      | InsufficientPlayers \<Rightarrow> (None, updateStatus g)
      | NoBoard \<Rightarrow> (Some ErrGameInProgress, g))"

section \<open>Placing a move\<close>

text \<open>
  \<^verbatim>\<open>func (g *Game) PlacePiece(move Move) error\<close>. \<^verbatim>\<open>g.X.ID\<close> dereferences the seat and
  \<^verbatim>\<open>g.Board[move.YAxis][move.XAxis]\<close> dereferences the board and indexes it with the
  coordinates as they were submitted; the source has no check before either. When the
  recomputed status is a win or a draw the source starts a goroutine that calls
  \<^verbatim>\<open>NextGame\<close> three seconds later: that call is a later step of its own, not part of
  what \<^verbatim>\<open>PlacePiece\<close> returns.
\<close>

definition place ::
  "Game \<Rightarrow> Move \<Rightarrow> Player option \<Rightarrow> Piece \<Rightarrow> string \<Rightarrow> result" where
  "place g move seated piece next_move =
     (case seated of
        None \<Rightarrow> Panicked NilDereference g
      | Some p \<Rightarrow>
          if ID p \<noteq> PlayerID move then Returned (Some ErrInvalidMove) g
          else (case Board g of
                  None \<Rightarrow> Panicked NilDereference g
                | Some b \<Rightarrow>
                    (case board_get b (YAxis move) (XAxis move) of
                       None \<Rightarrow> Panicked IndexOutOfRange g
                     | Some c \<Rightarrow>
                         if c \<noteq> blank then Returned (Some ErrInvalidMove) g
                         else (case board_set b (YAxis move) (XAxis move) piece of
                                 None \<Rightarrow> Panicked IndexOutOfRange g
                               | Some b' \<Rightarrow>
                                   Returned None
                                     (updateStatus (g\<lparr> Board := Some b', Move := next_move \<rparr>))))))"

definition PlacePiece :: "Game \<Rightarrow> Move \<Rightarrow> result" where
  "PlacePiece g move =
     (if Status g = XWins \<or> Status g = OWins \<or> Status g = NoBoard \<or> Status g = Cats
         \<or> Status g = InsufficientPlayers
      then Returned (Some ErrInvalidMove) g
      else if Move g = ''X'' then place g move (X g) xPiece ''O''
      else if Move g = ''O'' then place g move (O' g) oPiece ''X''
      else Returned None (updateStatus g))"

section \<open>Player registration, update and removal\<close>

text \<open>\<^verbatim>\<open>for _, queued := range g.Queue { if p.ID == queued.ID { ... } }\<close>\<close>

fun queued_id :: "string \<Rightarrow> Player list \<Rightarrow> bool" where
  "queued_id i [] = False"
| "queued_id i (queued # rest) = (if i = ID queued then True else queued_id i rest)"

text \<open>\<^verbatim>\<open>g.X != nil && g.X.ID == id\<close>\<close>

fun seated_id :: "Player option \<Rightarrow> string \<Rightarrow> bool" where
  "seated_id None i = False"
| "seated_id (Some p) i = (ID p = i)"

text \<open>The closure \<^verbatim>\<open>startGame\<close> of \<^verbatim>\<open>AddPlayer\<close>; starting the watchdog is no game state.\<close>

definition startGame :: "Game \<Rightarrow> Game" where
  "startGame g = g\<lparr> Status := InProgress \<rparr>"

text \<open>\<^verbatim>\<open>func (g *Game) AddPlayer(p Player) error\<close>\<close>

definition AddPlayer :: "Game \<Rightarrow> Player \<Rightarrow> error option \<times> Game" where
  "AddPlayer g p =
     (if queued_id (ID p) (Queue g) then (Some ErrAlreadyQueued, g)
      else if seated_id (X g) (ID p) \<or> seated_id (O' g) (ID p) then (Some ErrAlreadyPlaying, g)
      else if X g = None then
        (let g1 = g\<lparr> X := Some p \<rparr> in
         if O' g1 = None then (None, g1\<lparr> Move := ''X'' \<rparr>) else (None, startGame g1))
      else if O' g = None then
        (let g1 = g\<lparr> O' := Some p \<rparr> in
         if X g1 = None then (None, g1\<lparr> Move := ''O'' \<rparr>) else (None, startGame g1))
      else (None, g\<lparr> Queue := Queue g @ [p] \<rparr>))"

text \<open>
  \<^verbatim>\<open>for i := range g.Queue { if g.Queue[i].ID == p.ID { g.Queue[i] = p; return nil } }\<close>:
  \<open>None\<close> when the loop ends without a match.
\<close>

fun update_queued :: "Player list \<Rightarrow> Player \<Rightarrow> Player list option" where
  "update_queued [] p = None"
| "update_queued (q # qs) p =
     (if ID q = ID p then Some (p # qs)
      else (case update_queued qs p of None \<Rightarrow> None | Some qs' \<Rightarrow> Some (q # qs')))"

text \<open>\<^verbatim>\<open>func (g *Game) UpdatePlayer(p Player) error\<close>\<close>

definition UpdatePlayer :: "Game \<Rightarrow> Player \<Rightarrow> error option \<times> Game" where
  "UpdatePlayer g p =
     (if seated_id (X g) (ID p) then (None, g\<lparr> X := Some p \<rparr>)
      else if seated_id (O' g) (ID p) then (None, g\<lparr> O' := Some p \<rparr>)
      else (case update_queued (Queue g) p of
              Some q' \<Rightarrow> (None, g\<lparr> Queue := q' \<rparr>)
            | None \<Rightarrow> (Some ErrPlayerNotFound, g)))"

text \<open>
  The search of \<^verbatim>\<open>RemovePlayer\<close>,
  \<^verbatim>\<open>for i := range g.Queue { if g.Queue[i].ID == id { idx = i; break } }\<close>;
  \<open>None\<close> is \<^verbatim>\<open>idx == -1\<close>.
\<close>

fun find_queued :: "Player list \<Rightarrow> string \<Rightarrow> nat \<Rightarrow> nat option" where
  "find_queued [] i n = None"
| "find_queued (q # qs) i n = (if ID q = i then Some n else find_queued qs i (Suc n))"

text \<open>
  \<^verbatim>\<open>func (g *Game) RemovePlayer(id string) error\<close>; \<open>coin\<close> goes to \<^verbatim>\<open>NextGame\<close>.
  The splice is \<^verbatim>\<open>append(g.Queue[:idx], g.Queue[idx+1:]...)\<close>.
\<close>

definition RemovePlayer :: "bool \<Rightarrow> Game \<Rightarrow> string \<Rightarrow> error option \<times> Game" where
  "RemovePlayer coin g i =
     (if seated_id (X g) i then NextGame coin (clearBoard (g\<lparr> X := None \<rparr>))
      else if seated_id (O' g) i then NextGame coin (clearBoard (g\<lparr> O' := None \<rparr>))
      else (case find_queued (Queue g) i 0 of
              None \<Rightarrow> (Some ErrPlayerNotFound, g)
            | Some n \<Rightarrow> (None, g\<lparr> Queue := take n (Queue g) @ drop (Suc n) (Queue g) \<rparr>)))"

section \<open>Sequences of operations\<close>

text \<open>
  The operations a caller can invoke, with their arguments; a \<open>bool\<close> is the outcome
  of the coin that \<^verbatim>\<open>NextGame\<close> may flip. \<open>run ops\<close> is the game after the operations
  \<open>ops\<close>, one after the other, on the game \<^verbatim>\<open>New\<close> constructs. A call that returns an
  error or panics leaves the game as that call left it, and the next operation goes on
  from there.
\<close>

datatype op =
  OpAddPlayer Player
| OpUpdatePlayer Player
| OpRemovePlayer bool string
| OpPlacePiece Move
| OpNextGame bool

fun step :: "Game \<Rightarrow> op \<Rightarrow> Game" where
  "step g (OpAddPlayer p) = snd (AddPlayer g p)"
| "step g (OpUpdatePlayer p) = snd (UpdatePlayer g p)"
| "step g (OpRemovePlayer coin i) = snd (RemovePlayer coin g i)"
| "step g (OpPlacePiece m) = state_of (PlacePiece g m)"
| "step g (OpNextGame coin) = snd (NextGame coin g)"

definition run :: "op list \<Rightarrow> Game" where
  "run ops = foldl step New ops"

section \<open>Notions the properties are stated with\<close>

text \<open>The number of cells of a row that hold a piece.\<close>

definition occupied :: "Piece list \<Rightarrow> int" where
  "occupied row = int (length (filter (\<lambda>c. c \<noteq> 0) row))"

text \<open>The sums of the eight lines of a board: three rows, three columns, two diagonals.\<close>

definition line_sums :: "Board \<Rightarrow> int list" where
  "line_sums b =
     [cell b 0 0 + cell b 0 1 + cell b 0 2,
      cell b 1 0 + cell b 1 1 + cell b 1 2,
      cell b 2 0 + cell b 2 1 + cell b 2 2,
      cell b 0 0 + cell b 1 0 + cell b 2 0,
      cell b 0 1 + cell b 1 1 + cell b 2 1,
      cell b 0 2 + cell b 1 2 + cell b 2 2,
      cell b 0 0 + cell b 1 1 + cell b 2 2,
      cell b 2 0 + cell b 1 1 + cell b 0 2]"

definition no_line :: "Board \<Rightarrow> bool" where
  "no_line b = list_all (\<lambda>s. s \<noteq> xWins \<and> s \<noteq> oWins) (line_sums b)"

definition full_board :: "Board \<Rightarrow> bool" where
  "full_board b = list_all (\<lambda>row. list_all (\<lambda>c. c \<noteq> blank) (elems row)) (elems b)"

text \<open>The ids of all players of a game: seat X, seat O, then the queue in its order.\<close>

definition player_ids :: "Game \<Rightarrow> string list" where
  "player_ids g = map ID (seat (X g) @ seat (O' g) @ Queue g)"

text \<open>The player whose turn it is, as \<^verbatim>\<open>Move\<close> names the seat.\<close>

definition on_turn :: "Game \<Rightarrow> Player option" where
  "on_turn g = (if Move g = ''X'' then X g else if Move g = ''O'' then O' g else None)"

text \<open>
  What holds of every game the operations produce: there is a board, a game in progress
  has both seats taken, and \<^verbatim>\<open>Move\<close> names a seat as soon as a player has been seated.
\<close>

definition turn_known :: "Game \<Rightarrow> bool" where
  "turn_known g =
     (Move g = ''X'' \<or> Move g = ''O''
      \<or> (X g = None \<and> O' g = None \<and> Status g = InsufficientPlayers))"

definition well_formed :: "Game \<Rightarrow> bool" where
  "well_formed g =
     (Board g \<noteq> None \<and> turn_known g
      \<and> (if Status g = InProgress then X g \<noteq> None \<and> O' g \<noteq> None else True))"

text \<open>Players and moves for the examples.\<close>

definition player :: "string \<Rightarrow> Player" where
  "player i = \<lparr> ID = i, Name = None \<rparr>"

definition move_of :: "string \<Rightarrow> int \<Rightarrow> int \<Rightarrow> Move" where
  "move_of i y x = \<lparr> YAxis = y, XAxis = x, PlayerID = i \<rparr>"

text \<open>A game X has just won in the top row, with one player waiting.\<close>

definition won_by_X :: Game where
  "won_by_X =
     \<lparr> Board = Some (Arr3 (Arr3 xPiece xPiece xPiece) (Arr3 oPiece oPiece blank)
                          (Arr3 blank blank blank)),
       Queue = [player ''p3''], X = Some (player ''p1''), O' = Some (player ''p2''),
       Move = ''O'', Status = XWins \<rparr>"

text \<open>
  A full board without three in a line: the rows \<open>[X, O, X]\<close>, \<open>[X, O, O]\<close>,
  \<open>[O, X, O]\<close>.
\<close>

definition drawn :: Game where
  "drawn =
     \<lparr> Board = Some (Arr3 (Arr3 xPiece oPiece xPiece) (Arr3 xPiece oPiece oPiece)
                          (Arr3 oPiece xPiece oPiece)),
       Queue = [], X = Some (player ''p1''), O' = Some (player ''p2''),
       Move = ''O'', Status = InProgress \<rparr>"

section \<open>The queue rotation\<close>

lemma advanceQueue_order:
  "seat (fst (advanceQueue g outgoing)) @ Queue (snd (advanceQueue g outgoing))
     = Queue g @ seat outgoing"
  by (cases outgoing; cases "Queue g") (simp_all add: advanceQueue_def)

lemma advanceQueue_frame:
  "snd (advanceQueue g outgoing) = g\<lparr> Queue := Queue (snd (advanceQueue g outgoing)) \<rparr>"
  by (cases outgoing; cases "Queue g") (simp_all add: advanceQueue_def)

lemma advanceQueue_None_iff:
  "(fst (advanceQueue g outgoing) = None) = (Queue g @ seat outgoing = [])"
  by (cases outgoing; cases "Queue g") (simp_all add: advanceQueue_def)

text \<open>
  C3. For every queue and every optional outgoing player, \<^verbatim>\<open>advanceQueue\<close> appends the
  outgoing player, when there is one, to the back of the queue and then pops and returns
  the front: the returned player followed by the queue left behind is the old queue
  followed by the outgoing player, so the order of all players is kept; nothing is
  returned exactly when there is nobody to return; no other field of the game changes.
  In particular, with the queue \<open>[P1, P2]\<close> and the outgoing player \<open>Out\<close> the call
  returns \<open>P1\<close> and leaves the queue \<open>[P2, Out]\<close>.
\<close>

theorem advanceQueue_append_then_pop:
  "seat (fst (advanceQueue g outgoing)) @ Queue (snd (advanceQueue g outgoing))
     = Queue g @ seat outgoing
   \<and> (fst (advanceQueue g outgoing) = None) = (Queue g @ seat outgoing = [])
   \<and> snd (advanceQueue g outgoing) = g\<lparr> Queue := Queue (snd (advanceQueue g outgoing)) \<rparr>
   \<and> (Queue g = [P1, P2] \<longrightarrow>
        advanceQueue g (Some Out) = (Some P1, g\<lparr> Queue := [P2, Out] \<rparr>))"
  using advanceQueue_order[of g outgoing] advanceQueue_frame[of g outgoing]
    advanceQueue_None_iff[of g outgoing]
  by (simp add: advanceQueue_def)

theorem advanceQueue_append_then_pop_witness:
  "Queue (New\<lparr> Queue := [player ''p1'', player ''p2''] \<rparr>) = [player ''p1'', player ''p2'']
   \<and> advanceQueue (New\<lparr> Queue := [player ''p1'', player ''p2''] \<rparr>) (Some (player ''out''))
       = (Some (player ''p1''), New\<lparr> Queue := [player ''p2'', player ''out''] \<rparr>)"
  using advanceQueue_append_then_pop
    [of "New\<lparr> Queue := [player ''p1'', player ''p2''] \<rparr>" "Some (player ''out'')"
        "player ''p1''" "player ''p2''" "player ''out''"]
  by simp

text \<open>
  C10. For every game whose queue is empty and every outgoing player \<open>P\<close>,
  \<^verbatim>\<open>advanceQueue\<close> returns \<open>P\<close> itself and leaves the queue empty: a player who is sent
  to the queue when nobody is waiting is reseated at once.
\<close>

theorem advanceQueue_empty_queue:
  "Queue g = [] \<Longrightarrow>
     advanceQueue g (Some P) = (Some P, g) \<and> Queue (snd (advanceQueue g (Some P))) = []"
  by (simp add: advanceQueue_def)

theorem advanceQueue_empty_queue_witness:
  "Queue New = []
   \<and> advanceQueue New (Some (player ''p1'')) = (Some (player ''p1''), New)
   \<and> Queue (snd (advanceQueue New (Some (player ''p1'')))) = []"
proof -
  have q: "Queue New = []"
    by (simp add: New_def)
  show ?thesis
    using q advanceQueue_empty_queue [OF q, of "player ''p1''"] by simp
qed

section \<open>Round advancement after a win of X\<close>

text \<open>
  C2. For every game whose status is \<^verbatim>\<open>XWins\<close> and whose queue is not empty,
  \<^verbatim>\<open>NextGame\<close> returns no error, leaves the occupant of seat X as it was, seats the
  head of the queue in seat O, removes that head from the queue, appends the player who
  held seat O before to the end of the queue, clears the board and gives the next move
  to O.
\<close>

theorem NextGame_XWins:
  assumes "Status g = XWins" and "Queue g = h # t"
  shows "fst (NextGame coin g) = None
       \<and> X (snd (NextGame coin g)) = X g
       \<and> O' (snd (NextGame coin g)) = Some h
       \<and> Queue (snd (NextGame coin g)) = t @ seat (O' g)
       \<and> Board (snd (NextGame coin g)) = Some empty_board
       \<and> Move (snd (NextGame coin g)) = ''O''"
  using assms
  by (cases "O' g")
     (simp_all add: NextGame_def Let_def clearBoard_def advance_O_def advanceQueue_def
        updateStatus_def)

theorem NextGame_XWins_witness:
  "Status won_by_X = XWins \<and> Queue won_by_X = [player ''p3'']
   \<and> fst (NextGame True won_by_X) = None
   \<and> X (snd (NextGame True won_by_X)) = Some (player ''p1'')
   \<and> O' (snd (NextGame True won_by_X)) = Some (player ''p3'')
   \<and> Queue (snd (NextGame True won_by_X)) = [player ''p2'']
   \<and> Board (snd (NextGame True won_by_X)) = Some empty_board
   \<and> Move (snd (NextGame True won_by_X)) = ''O''"
proof -
  have s: "Status won_by_X = XWins" and q: "Queue won_by_X = player ''p3'' # []"
    by (simp_all add: won_by_X_def)
  have "X won_by_X = Some (player ''p1'')" "O' won_by_X = Some (player ''p2'')"
    by (simp_all add: won_by_X_def)
  then show ?thesis
    using s q NextGame_XWins [OF s q, of True] by simp
qed

section \<open>Status evaluation on a board given cell by cell\<close>

text \<open>
  The loops of \<^verbatim>\<open>status\<close> unrolled on a board of nine cells: the three checks after
  the rows are checks of the running total of the board, then come the columns and the
  diagonals.
\<close>

lemma row_loop_cells:
  "row_loop [a, b, c] 0 (m, 0, [c0, c1, c2]) =
     (m - occupied [a, b, c], a + b + c, [c0 + a, c1 + b, c2 + c])"
  by (simp add: numeral_2_eq_2 occupied_def)

lemma rows_loop_cells:
  "rows_loop [Arr3 a1 a2 a3, Arr3 a4 a5 a6, Arr3 a7 a8 a9] 0 9 [0, 0, 0] =
    (case checkScore (a1 + a2 + a3) of Some s \<Rightarrow> Inl s | None \<Rightarrow>
     case checkScore (a1 + a2 + a3 + (a4 + a5 + a6)) of Some s \<Rightarrow> Inl s | None \<Rightarrow>
     case checkScore (a1 + a2 + a3 + (a4 + a5 + a6) + (a7 + a8 + a9)) of Some s \<Rightarrow> Inl s | None \<Rightarrow>
     Inr (9 - occupied [a1, a2, a3] - occupied [a4, a5, a6] - occupied [a7, a8, a9],
          [a1 + a4 + a7, a2 + a5 + a8, a3 + a6 + a9]))"
  by (simp add: row_loop_cells del: row_loop.simps split: option.split)

lemma status_cells:
  assumes "X g \<noteq> None" "O' g \<noteq> None"
    and "Board g = Some (Arr3 (Arr3 a1 a2 a3) (Arr3 a4 a5 a6) (Arr3 a7 a8 a9))"
  shows "status g =
    (case checkScore (a1 + a2 + a3) of Some s \<Rightarrow> s | None \<Rightarrow>
     case checkScore (a1 + a2 + a3 + (a4 + a5 + a6)) of Some s \<Rightarrow> s | None \<Rightarrow>
     case checkScore (a1 + a2 + a3 + (a4 + a5 + a6) + (a7 + a8 + a9)) of Some s \<Rightarrow> s | None \<Rightarrow>
     case checkScore (a1 + a4 + a7) of Some s \<Rightarrow> s | None \<Rightarrow>
     case checkScore (a2 + a5 + a8) of Some s \<Rightarrow> s | None \<Rightarrow>
     case checkScore (a3 + a6 + a9) of Some s \<Rightarrow> s | None \<Rightarrow>
     case checkScore (a1 + a5 + a9) of Some s \<Rightarrow> s | None \<Rightarrow>
     case checkScore (a7 + a5 + a3) of Some s \<Rightarrow> s | None \<Rightarrow>
     if 9 - occupied [a1, a2, a3] - occupied [a4, a5, a6] - occupied [a7, a8, a9] = 0
     then Cats else InProgress)"
proof -
  from assms obtain x y where "X g = Some x" "O' g = Some y"
    by auto
  with assms(3) show ?thesis
    by (simp add: status_def rows_loop_cells cell_def numeral_2_eq_2 del: rows_loop.simps
          split: option.split)
qed

lemma full_no_line_checks:
  assumes "a1 = - 1 \<or> a1 = (1::int)" "a2 = - 1 \<or> a2 = (1::int)" "a3 = - 1 \<or> a3 = (1::int)"
    "a4 = - 1 \<or> a4 = (1::int)" "a5 = - 1 \<or> a5 = (1::int)" "a6 = - 1 \<or> a6 = (1::int)"
    "a7 = - 1 \<or> a7 = (1::int)" "a8 = - 1 \<or> a8 = (1::int)" "a9 = - 1 \<or> a9 = (1::int)"
    and "no_line (Arr3 (Arr3 a1 a2 a3) (Arr3 a4 a5 a6) (Arr3 a7 a8 a9))"
  shows "checkScore (a1 + a2 + a3) = None
    \<and> checkScore (a1 + a2 + a3 + (a4 + a5 + a6)) = None
    \<and> checkScore (a1 + a2 + a3 + (a4 + a5 + a6) + (a7 + a8 + a9)) = None
    \<and> checkScore (a1 + a4 + a7) = None
    \<and> checkScore (a2 + a5 + a8) = None
    \<and> checkScore (a3 + a6 + a9) = None
    \<and> checkScore (a1 + a5 + a9) = None
    \<and> checkScore (a7 + a5 + a3) = None
    \<and> 9 - occupied [a1, a2, a3] - occupied [a4, a5, a6] - occupied [a7, a8, a9] = 0"
  using assms
  apply (simp only: no_line_def line_sums_def cell_def elems.simps nth_Cons_0 nth_Cons_Suc
      numeral_2_eq_2 One_nat_def list.pred_inject checkScore_def xWins_def oWins_def occupied_def)
  apply (elim disjE)
  apply simp_all
  done

lemma mark_cases: "valid_piece c \<Longrightarrow> c \<noteq> blank \<Longrightarrow> c = - 1 \<or> c = 1"
  by (auto simp: valid_piece_def xPiece_def oPiece_def)

text \<open>
  C7. For every game with both seats taken whose board holds a piece (X or O) in each
  of its nine cells and has no row, column or diagonal that sums to \<open>-3\<close> or \<open>3\<close>,
  the status evaluation returns \<^verbatim>\<open>Cats\<close>.
\<close>

theorem status_full_board_draw:
  assumes "X g \<noteq> None" and "O' g \<noteq> None" and "Board g = Some b"
    and "valid_board b" and "full_board b" and "no_line b"
  shows "status g = Cats"
proof -
  obtain r1 r2 r3 where b: "b = Arr3 r1 r2 r3"
    by (cases b)
  obtain a1 a2 a3 where r1: "r1 = Arr3 a1 a2 a3"
    by (cases r1)
  obtain a4 a5 a6 where r2: "r2 = Arr3 a4 a5 a6"
    by (cases r2)
  obtain a7 a8 a9 where r3: "r3 = Arr3 a7 a8 a9"
    by (cases r3)
  note cells = b r1 r2 r3
  have m: "a1 = - 1 \<or> a1 = 1" "a2 = - 1 \<or> a2 = 1" "a3 = - 1 \<or> a3 = 1"
    "a4 = - 1 \<or> a4 = 1" "a5 = - 1 \<or> a5 = 1" "a6 = - 1 \<or> a6 = 1"
    "a7 = - 1 \<or> a7 = 1" "a8 = - 1 \<or> a8 = 1" "a9 = - 1 \<or> a9 = 1"
    using assms(4,5) by (simp_all add: cells valid_board_def full_board_def mark_cases)
  have n: "no_line (Arr3 (Arr3 a1 a2 a3) (Arr3 a4 a5 a6) (Arr3 a7 a8 a9))"
    using assms(6) by (simp add: cells)
  have bd: "Board g = Some (Arr3 (Arr3 a1 a2 a3) (Arr3 a4 a5 a6) (Arr3 a7 a8 a9))"
    using assms(3) by (simp add: cells)
  show ?thesis
    using full_no_line_checks [OF m n]
    by (simp add: status_cells [OF assms(1,2) bd])
qed

theorem status_full_board_draw_witness:
  "X drawn \<noteq> None \<and> O' drawn \<noteq> None
   \<and> valid_board (the (Board drawn)) \<and> full_board (the (Board drawn))
   \<and> no_line (the (Board drawn)) \<and> status drawn = Cats"
proof -
  have s: "X drawn \<noteq> None" "O' drawn \<noteq> None"
    and b: "Board drawn = Some (the (Board drawn))"
    by (simp_all add: drawn_def)
  have v: "valid_board (the (Board drawn))"
    by (simp add: drawn_def valid_board_def valid_piece_def)
  have f: "full_board (the (Board drawn))"
    by (simp add: drawn_def full_board_def xPiece_def oPiece_def blank_def)
  have n: "no_line (the (Board drawn))"
    by (simp add: drawn_def no_line_def line_sums_def cell_def numeral_2_eq_2
        xPiece_def oPiece_def xWins_def oWins_def)
  show ?thesis
    using s v f n status_full_board_draw [OF s b v f n] by simp
qed

end
